theory Spec2Isabelle
  imports Complex_Main
begin

section \<open>Python values, dictionaries and the logger\<close>

text \<open>
  The quantizer dictionaries of pyfda (\<open>fb.fil[0]['fxqc']['QA']\<close> and its siblings) map
  string keys to integers (\<open>'WI'\<close>, \<open>'WF'\<close>, \<open>'W'\<close>) and strings (\<open>'Q'\<close>, \<open>'ovfl'\<close>,
  \<open>'quant'\<close>). Python's \<open>bool\<close> is a subtype of \<open>int\<close>; a flag such as \<open>'fractional'\<close>
  is carried as \<open>IntV 1\<close> or \<open>IntV 0\<close>. Floating point coefficients are real numbers.
\<close>

datatype val = IntV int | StrV string

datatype error = KeyError string | TypeError | OverflowError | ValueError | UnboundLocalError
  | InvalidCoefficients | InvalidWordFormat | NotConfigured

datatype log_entry = LogError string | LogException error | LogWarning string

datatype outcome = Returned | Raised error

type_synonym qdict = "string \<rightharpoonup> val"

type_synonym addr = nat

text \<open>\<open>d[k]\<close> raises \<open>KeyError\<close> on a missing key.\<close>

definition dict_get :: "qdict \<Rightarrow> string \<Rightarrow> error + val" where
  "dict_get d k = (case d k of None \<Rightarrow> Inl (KeyError k) | Some v \<Rightarrow> Inr v)"

text \<open>\<open>d.update(other)\<close>: the entries of \<open>other\<close> win.\<close>

definition dict_update :: "qdict \<Rightarrow> qdict \<Rightarrow> qdict" where
  "dict_update d other = d ++ other"

text \<open>Python's \<open>+\<close> on the two kinds of value; mixing them raises \<open>TypeError\<close>.\<close>

fun py_add :: "val \<Rightarrow> val \<Rightarrow> error + val" where
  "py_add (IntV a) (IntV b) = Inr (IntV (a + b))"
| "py_add (StrV a) (StrV b) = Inr (StrV (a @ b))"
| "py_add _ _ = Inl TypeError"

text \<open>Truth value of a Python value: zero and the empty string are false.\<close>

fun truthy :: "val \<Rightarrow> bool" where
  "truthy (IntV n) = (n \<noteq> 0)"
| "truthy (StrV s) = (s \<noteq> [])"

definition digit_char :: "nat \<Rightarrow> char" where
  "digit_char d = ''0123456789'' ! d"

fun str_nat :: "nat \<Rightarrow> string" where
  "str_nat n = (if n < 10 then [digit_char n] else str_nat (n div 10) @ [digit_char (n mod 10)])"

declare str_nat.simps [simp del]

definition str_int :: "int \<Rightarrow> string" where
  "str_int i = (if i < 0 then CHR ''-'' # str_nat (nat (- i)) else str_nat (nat i))"

text \<open>\<open>str(v)\<close>, the same as \<open>qstr(v)\<close> on these values.\<close>

fun py_str :: "val \<Rightarrow> string" where
  "py_str (IntV n) = str_int n"
| "py_str (StrV s) = s"

definition bind_err :: "error + 'a \<Rightarrow> ('a \<Rightarrow> error + 'b) \<Rightarrow> error + 'b" where
  "bind_err x f = (case x of Inl e \<Rightarrow> Inl e | Inr v \<Rightarrow> f v)"

text \<open>
  The dictionaries are shared objects: a widget keeps a reference to the dictionary it
  was constructed with and mutates it in place. The store maps addresses to
  dictionaries; \<open>logger\<close> collects what is reported through \<open>logger.error\<close> and
  \<open>logger.warning\<close> (debug output is left out).
\<close>

record world =
  heap :: "addr \<Rightarrow> qdict"
  fresh :: addr
  logger :: "log_entry list"

definition log_entry_add :: "log_entry \<Rightarrow> world \<Rightarrow> world" where
  "log_entry_add e wld = wld\<lparr>logger := logger wld @ [e]\<rparr>"

definition dict_set_at :: "addr \<Rightarrow> string \<Rightarrow> val \<Rightarrow> world \<Rightarrow> world" where
  "dict_set_at a k v wld = wld\<lparr>heap := (heap wld)(a := (heap wld a)(k \<mapsto> v))\<rparr>"

definition dict_update_at :: "addr \<Rightarrow> qdict \<Rightarrow> world \<Rightarrow> world" where
  "dict_update_at a other wld = wld\<lparr>heap := (heap wld)(a := dict_update (heap wld a) other)\<rparr>"

text \<open>A new dictionary object \<open>{...}\<close> gets an address not in use.\<close>

definition dict_new :: "qdict \<Rightarrow> world \<Rightarrow> addr \<times> world" where
  "dict_new d wld = (fresh wld, wld\<lparr>heap := (heap wld)(fresh wld := d), fresh := Suc (fresh wld)\<rparr>)"

section \<open>Sanitizing word lengths\<close>

text \<open>Modelled from the spec: \<open>safe_eval\<close> of \<open>pyfda.libs.pyfda_lib\<close> is not among the
  sources. Both callers pass \<open>return_type="int"\<close> and \<open>sign='poszero'\<close>, the entry and the
  current value as fallback. The spec (section 6): numeric fields are always sanitized to
  non-negative integers; invalid or negative entries are clamped or rejected at the
  boundary. An entry that does not evaluate to a number is rejected in favour of the
  fallback, and a negative number is clamped to zero. The evaluation of the entry itself
  (\<open>numexpr\<close>) is the parameter \<open>ev\<close>.\<close>

definition safe_eval :: "(val \<Rightarrow> int option) \<Rightarrow> val \<Rightarrow> int \<Rightarrow> int" where
  "safe_eval ev expr alt_expr =
     (case ev expr of Some v \<Rightarrow> max 0 v | None \<Rightarrow> max 0 alt_expr)"

section \<open>The word length widget \<open>UI_W\<close>\<close>

text \<open>
  The attributes of a \<open>UI_W\<close> widget that its methods read and write: the word lengths,
  the reference to its quantizer dictionary, the texts of the two line edits and the text
  of the combo box. Layout, tooltips and signals belong to the GUI toolkit.
\<close>

record ui_w =
  WI :: int
  WF :: int
  W :: int
  q_dict :: addr
  ledWI :: string
  ledWF :: string
  cmbW :: string

text \<open>\<open>UI_W.dict2ui\<close>: update the line edits and the attributes from the dictionary passed.\<close>

definition dict2ui :: "(val \<Rightarrow> int option) \<Rightarrow> addr option \<Rightarrow> ui_w \<times> world \<Rightarrow> ui_w \<times> world" where
  "dict2ui ev q_dict_arg st =
     (let (w, wld) = st;
          q = heap wld (case q_dict_arg of None \<Rightarrow> q_dict w | Some a \<Rightarrow> a);
          (w1, wld1) =
            (case q ''WI'' of
               Some v \<Rightarrow>
                 (let wi = safe_eval ev v (WI w) in (w\<lparr>WI := wi, ledWI := str_int wi\<rparr>, wld))
             | None \<Rightarrow> (w, log_entry_add (LogWarning ''No key 'WI' in dict!'') wld));
          (w2, wld2) =
            (case q ''WF'' of
               Some v \<Rightarrow>
                 (let wf = safe_eval ev v (WF w1) in (w1\<lparr>WF := wf, ledWF := str_int wf\<rparr>, wld1))
             | None \<Rightarrow> (w1, log_entry_add (LogWarning ''No key 'WF' in dict!'') wld1))
      in (w2\<lparr>W := WF w2 + WI w2 + 1\<rparr>, wld2))"

text \<open>
  \<open>UI_W.ui2dict\<close>: read the line edits, sanitize, write the texts back and store the
  three values in the widget's dictionary. \<open>sender\<close> is the object name of the Qt sender
  (\<open>None\<close> without one) and \<open>s\<close> the optional argument; the signal emitted for a sender
  is not part of the state.
\<close>

definition ui2dict :: "(val \<Rightarrow> int option) \<Rightarrow> string option \<Rightarrow> string option
    \<Rightarrow> ui_w \<times> world \<Rightarrow> ui_w \<times> world" where
  "ui2dict ev sender s st =
     (let (w, wld) = st;
          wi = safe_eval ev (StrV (ledWI w)) (WI w);
          w1 = w\<lparr>WI := wi, ledWI := str_int wi\<rparr>;
          wf = safe_eval ev (StrV (ledWF w1)) (WF w1);
          w2 = w1\<lparr>WF := wf, ledWF := str_int wf\<rparr>;
          w3 = w2\<lparr>W := WI w2 + WF w2 + 1\<rparr>;
          wld1 = dict_update_at (q_dict w3)
                   [''WI'' \<mapsto> IntV (WI w3), ''WF'' \<mapsto> IntV (WF w3), ''W'' \<mapsto> IntV (W w3)] wld
      in (w3, if sender \<noteq> None \<or> s = Some ''init'' then wld1
              else log_entry_add (LogError ''sender without name!'') wld1))"

section \<open>Accumulator sizing of the DF1 IIR filter widget\<close>

text \<open>
  What \<open>IIR_DF1_pyfixp_UI.update_accu_settings\<close> reads and writes: the sub-dictionaries
  \<open>'QA'\<close>, \<open>'QI'\<close>, \<open>'QCB'\<close>, \<open>'QCA'\<close> of \<open>fb.fil[0]['fxqc']\<close> (references into the store;
  \<open>None\<close> for a missing key), the quantized coefficient lists \<open>fb.fil[0]['fxqc']['b']\<close>
  and \<open>['a']\<close>, the floating point coefficients \<open>fb.fil[0]['ba']\<close> (\<open>b\<close> first, \<open>a\<close>
  second), the accumulator word length widget and the dictionary of the accumulator
  quantizer widget.
\<close>

record iir_ui =
  fxqc_QA :: "addr option"
  fxqc_QI :: "addr option"
  fxqc_QCB :: "addr option"
  fxqc_QCA :: "addr option"
  fxqc_b :: "real list option"
  fxqc_a :: "real list option"
  ba_b :: "real list"
  ba_a :: "real list"
  wdg_w_accu :: ui_w
  wdg_q_accu_q_dict :: addr
  env :: world

text \<open>\<open>qget_cmb_box(cmb, data=False)\<close> returns the current text of the combo box.\<close>

definition qget_cmb_box :: "ui_w \<Rightarrow> string" where
  "qget_cmb_box w = cmbW w"

text \<open>
  \<open>int(np.ceil(np.log2(x)))\<close>: \<open>np.log2(0)\<close> is \<open>-inf\<close>, which \<open>int\<close> refuses with
  \<open>OverflowError\<close>; a negative argument gives \<open>nan\<close> and \<open>ValueError\<close>.
\<close>

definition int_ceil_log2 :: "real \<Rightarrow> error + int" where
  "int_ceil_log2 x =
     (if x = 0 then Inl OverflowError
      else if x < 0 then Inl ValueError
      else Inr \<lceil>log 2 x\<rceil>)"

text \<open>The body of the \<open>try\<close> block: the bit growth \<open>A_coeff\<close>, unbound outside the derived modes.\<close>

definition A_coeff_try :: "iir_ui \<Rightarrow> error + int option" where
  "A_coeff_try s =
     (if qget_cmb_box (wdg_w_accu s) = ''full'' then
        (case fxqc_b s of
           None \<Rightarrow> Inl (KeyError ''b'')
         | Some b \<Rightarrow> map_sum id Some (int_ceil_log2 (real (length b))))
      else if qget_cmb_box (wdg_w_accu s) = ''auto'' then
        map_sum id Some (int_ceil_log2 (\<Sum>x\<leftarrow>ba_b s. \<bar>x\<bar>))
      else Inr None)"

text \<open>\<open>fb.fil[0]['fxqc'][name][k]\<close> for a sub-dictionary \<open>name\<close> selected by \<open>sel\<close>.\<close>

definition fxqc_get :: "(iir_ui \<Rightarrow> addr option) \<Rightarrow> string \<Rightarrow> string \<Rightarrow> iir_ui \<Rightarrow> error + val" where
  "fxqc_get sel name k s =
     (case sel s of
        None \<Rightarrow> Inl (KeyError name)
      | Some a \<Rightarrow> dict_get (heap (env s) a) k)"

text \<open>
  \<open>fb.fil[0]['fxqc']['QA'][k] = rhs\<close>: the right-hand side is evaluated first, then the
  target; an exception leaves the state as it was before the statement.
\<close>

definition QA_assign :: "string \<Rightarrow> (iir_ui \<Rightarrow> error + val) \<Rightarrow> iir_ui \<Rightarrow> error + iir_ui" where
  "QA_assign k rhs s =
     bind_err (rhs s) (\<lambda>v.
       (case fxqc_QA s of
          None \<Rightarrow> Inl (KeyError ''QA'')
        | Some a \<Rightarrow> Inr (s\<lparr>env := dict_set_at a k v (env s)\<rparr>)))"

definition e_add :: "(iir_ui \<Rightarrow> error + val) \<Rightarrow> (iir_ui \<Rightarrow> error + val) \<Rightarrow> iir_ui \<Rightarrow> error + val" where
  "e_add e1 e2 s = bind_err (e1 s) (\<lambda>a. bind_err (e2 s) (\<lambda>b. py_add a b))"

definition e_str :: "(iir_ui \<Rightarrow> error + val) \<Rightarrow> iir_ui \<Rightarrow> error + val" where
  "e_str e s = bind_err (e s) (\<lambda>a. Inr (StrV (py_str a)))"

definition e_const :: "val \<Rightarrow> iir_ui \<Rightarrow> error + val" where
  "e_const v s = Inr v"

text \<open>The local \<open>A_coeff\<close>; reading it while unbound raises.\<close>

definition e_A_coeff :: "int option \<Rightarrow> iir_ui \<Rightarrow> error + val" where
  "e_A_coeff A s = (case A of None \<Rightarrow> Inl UnboundLocalError | Some g \<Rightarrow> Inr (IntV g))"

text \<open>A sequence of statements stops at the first one that raises.\<close>

fun run_stmts :: "('s \<Rightarrow> error + 's) list \<Rightarrow> 's \<Rightarrow> outcome \<times> 's" where
  "run_stmts [] s = (Returned, s)"
| "run_stmts (f # fs) s = (case f s of Inl e \<Rightarrow> (Raised e, s) | Inr s' \<Rightarrow> run_stmts fs s')"

text \<open>\<open>fb.fil[0]['fxqc']['QA'].update(self.wdg_q_accu.q_dict)\<close>\<close>

definition QA_update_q_accu :: "iir_ui \<Rightarrow> error + iir_ui" where
  "QA_update_q_accu s =
     (case fxqc_QA s of
        None \<Rightarrow> Inl (KeyError ''QA'')
      | Some a \<Rightarrow>
          Inr (s\<lparr>env := dict_update_at a (heap (env s) (wdg_q_accu_q_dict s)) (env s)\<rparr>))"

text \<open>\<open>self.wdg_w_accu.dict2ui(fb.fil[0]['fxqc']['QA'])\<close>\<close>

definition wdg_w_accu_dict2ui :: "(val \<Rightarrow> int option) \<Rightarrow> iir_ui \<Rightarrow> error + iir_ui" where
  "wdg_w_accu_dict2ui ev s =
     (case fxqc_QA s of
        None \<Rightarrow> Inl (KeyError ''QA'')
      | Some a \<Rightarrow>
          (let (w', wld') = dict2ui ev (Some a) (wdg_w_accu s, env s)
           in Inr (s\<lparr>wdg_w_accu := w', env := wld'\<rparr>)))"

text \<open>
  \<open>update_accu_settings\<close>. An exception inside the \<open>try\<close> block is logged and the method
  returns; afterwards the word lengths of the accumulator are assigned in the derived
  modes, and in every mode the total width and the \<open>'Q'\<close> string are recomputed, the
  quantizer settings merged in and the widget updated.
\<close>

definition update_accu_settings :: "(val \<Rightarrow> int option) \<Rightarrow> iir_ui \<Rightarrow> outcome \<times> iir_ui" where
  "update_accu_settings ev s =
     (case A_coeff_try s of
        Inl e \<Rightarrow> (Returned, s\<lparr>env := log_entry_add (LogException e) (env s)\<rparr>)
      | Inr A_coeff \<Rightarrow>
          run_stmts
            ((if qget_cmb_box (wdg_w_accu s) = ''full'' \<or> qget_cmb_box (wdg_w_accu s) = ''auto''
              then
                [QA_assign ''WF''
                   (e_add (fxqc_get fxqc_QI ''QI'' ''WF'') (fxqc_get fxqc_QCB ''QCB'' ''WF'')),
                 QA_assign ''WI''
                   (e_add (e_add (fxqc_get fxqc_QI ''QI'' ''WI'') (fxqc_get fxqc_QCB ''QCB'' ''WI''))
                      (e_A_coeff A_coeff))]
              else []) @
             [QA_assign ''W''
                (e_add (e_add (fxqc_get fxqc_QA ''QA'' ''WI'') (fxqc_get fxqc_QA ''QA'' ''WF''))
                   (e_const (IntV 1))),
              QA_assign ''Q''
                (e_add (e_add (e_str (fxqc_get fxqc_QA ''QA'' ''WI'')) (e_const (StrV ''.'')))
                   (e_str (fxqc_get fxqc_QA ''QA'' ''WF''))),
              QA_update_q_accu,
              wdg_w_accu_dict2ui ev])
            s)"

text \<open>
  The accumulator quantizer widget either shares the accumulator dictionary (it is
  constructed with \<open>fb.fil[0]['fxqc']['QA']\<close>) or holds a dictionary of its own with the
  quantizer settings only; in both cases merging it in leaves the word lengths alone.
\<close>

definition q_accu_keeps_format :: "iir_ui \<Rightarrow> addr \<Rightarrow> bool" where
  "q_accu_keeps_format s qa =
     (wdg_q_accu_q_dict s = qa \<or>
      (heap (env s) (wdg_q_accu_q_dict s) ''WI'' = None \<and>
       heap (env s) (wdg_q_accu_q_dict s) ''WF'' = None \<and>
       heap (env s) (wdg_q_accu_q_dict s) ''W'' = None))"

text \<open>A dictionary with integer word lengths, and one whose total width fits them.\<close>

definition has_word_lengths :: "qdict \<Rightarrow> bool" where
  "has_word_lengths d =
     (case (d ''WI'', d ''WF'') of
        (Some (IntV i), Some (IntV f)) \<Rightarrow> True
      | _ \<Rightarrow> False)"

definition width_consistent :: "qdict \<Rightarrow> bool" where
  "width_consistent d =
     (case (d ''WI'', d ''WF'', d ''W'') of
        (Some (IntV i), Some (IntV f), Some (IntV w)) \<Rightarrow> w = i + f + 1
      | _ \<Rightarrow> False)"

text \<open>
  What the sizing needs to run to its end: the accumulator dictionary, a quantizer
  dictionary that leaves the word lengths alone, and integer word lengths where they are
  read: of the input and the \<open>b\<close> coefficients in the derived modes, of the accumulator
  itself otherwise.
\<close>

definition sizing_ready :: "iir_ui \<Rightarrow> addr \<Rightarrow> bool" where
  "sizing_ready s qa =
     (fxqc_QA s = Some qa \<and> q_accu_keeps_format s qa \<and>
      (if qget_cmb_box (wdg_w_accu s) = ''full'' \<or> qget_cmb_box (wdg_w_accu s) = ''auto''
       then (case (fxqc_QI s, fxqc_QCB s) of
               (Some qi, Some qcb) \<Rightarrow>
                 has_word_lengths (heap (env s) qi) \<and> has_word_lengths (heap (env s) qcb)
             | _ \<Rightarrow> False)
       else has_word_lengths (heap (env s) qa)))"

text \<open>
  The states of a word length widget: \<open>__init__\<close> ends with \<open>ui2dict\<close>, every edit runs
  \<open>ui2dict\<close>, and \<open>dict2ui\<close> may be called with any dictionary in between.
\<close>

inductive ui_w_reachable :: "(val \<Rightarrow> int option) \<Rightarrow> ui_w \<Rightarrow> bool"
  for ev :: "val \<Rightarrow> int option" where
  after_ui2dict: "ui_w_reachable ev (fst (ui2dict ev sender a (w, wld)))"
| after_dict2ui: "ui_w_reachable ev w \<Longrightarrow> ui_w_reachable ev (fst (dict2ui ev q (w, wld)))"

section \<open>Construction of the word length widget\<close>

text \<open>
  The settings dictionary \<open>dict_ui\<close> of \<open>UI_W._construct_UI\<close> also holds the list of combo
  box entries, so its values are dictionary values or lists of strings.
\<close>

datatype setting = Val val | Items "string list"

fun truthy_setting :: "setting \<Rightarrow> bool" where
  "truthy_setting (Val v) = truthy v"
| "truthy_setting (Items xs) = (xs \<noteq> [])"

definition dict_ui_default :: "string \<rightharpoonup> setting" where
  "dict_ui_default =
     [''wdg_name'' \<mapsto> Val (StrV ''ui_w''), ''label'' \<mapsto> Val (StrV ''WI.WF''),
      ''lbl_sep'' \<mapsto> Val (StrV ''.''), ''max_led_width'' \<mapsto> Val (IntV 30),
      ''WI'' \<mapsto> Val (IntV 0), ''WI_len'' \<mapsto> Val (IntV 2),
      ''tip_WI'' \<mapsto> Val (StrV ''Number of integer bits''),
      ''WF'' \<mapsto> Val (IntV 15), ''WF_len'' \<mapsto> Val (IntV 2),
      ''tip_WF'' \<mapsto> Val (StrV ''Number of fractional bits''),
      ''enabled'' \<mapsto> Val (IntV 1), ''visible'' \<mapsto> Val (IntV 1),
      ''fractional'' \<mapsto> Val (IntV 1),
      ''combo_visible'' \<mapsto> Val (IntV 0),
      ''combo_items'' \<mapsto> Items [''auto'', ''full'', ''man''],
      ''tip_combo'' \<mapsto> Val (StrV ''Calculate Acc. width.''),
      ''lock_visible'' \<mapsto> Val (IntV 0),
      ''tip_lock'' \<mapsto> Val (StrV ''Lock input/output quantization.'')]"

text \<open>The loop over the keyword arguments: a key not in \<open>dict_ui\<close> is reported and skipped.\<close>

fun kwargs_loop :: "(string \<times> setting) list \<Rightarrow> (string \<rightharpoonup> setting) \<times> world
    \<Rightarrow> (string \<rightharpoonup> setting) \<times> world" where
  "kwargs_loop [] st = st"
| "kwargs_loop ((k, v) # rest) (d, wld) =
     kwargs_loop rest
       (if d k = None then (d, log_entry_add (LogWarning (''Unknown key '' @ k)) wld)
        else (d(k \<mapsto> v), wld))"

text \<open>\<open>if self.q_dict:\<close> holds for a dictionary with at least one entry.\<close>

definition q_dict_truthy :: "addr option \<Rightarrow> world \<Rightarrow> bool" where
  "q_dict_truthy q_arg wld = (case q_arg of None \<Rightarrow> False | Some a \<Rightarrow> heap wld a \<noteq> Map.empty)"

text \<open>The settings after the defaults, the quantizer dictionary and the keyword arguments.\<close>

definition merge_settings :: "addr option \<Rightarrow> (string \<times> setting) list \<Rightarrow> world
    \<Rightarrow> (string \<rightharpoonup> setting) \<times> world" where
  "merge_settings q_arg kwargs wld =
     kwargs_loop kwargs
       (case q_arg of
          None \<Rightarrow> dict_ui_default
        | Some a \<Rightarrow>
            (if q_dict_truthy q_arg wld
             then dict_ui_default ++ (\<lambda>k. map_option Val (heap wld a k))
             else dict_ui_default),
        wld)"

definition setting_get :: "(string \<rightharpoonup> setting) \<Rightarrow> string \<Rightarrow> error + setting" where
  "setting_get d k = (case d k of None \<Rightarrow> Inl (KeyError k) | Some v \<Rightarrow> Inr v)"

text \<open>
  \<open>UI_W._construct_UI\<close> up to the point where the attributes and the dictionary are set
  (the rest of the method builds the Qt widgets). \<open>q_arg\<close> is the dictionary that
  \<open>__init__\<close> stored in \<open>self.q_dict\<close>, \<open>None\<close> for Python's \<open>None\<close>. The sum
  \<open>self.WI + self.WF + 1\<close> raises \<open>TypeError\<close> unless both settings are integers.
\<close>

definition construct_UI :: "addr option \<Rightarrow> (string \<times> setting) list \<Rightarrow> ui_w \<times> world
    \<Rightarrow> error + ui_w \<times> world" where
  "construct_UI q_arg kwargs st =
     (let (w, wld0) = st;
          (dict_ui0, wld1) = merge_settings q_arg kwargs wld0
      in bind_err (setting_get dict_ui0 ''fractional'') (\<lambda>fractional.
         let dict_ui = (if \<not> truthy_setting fractional
                        then dict_ui0(''WF'' \<mapsto> Val (IntV 0)) else dict_ui0)
         in bind_err (setting_get dict_ui ''WI'') (\<lambda>wi.
            bind_err (setting_get dict_ui ''WF'') (\<lambda>wf.
              (case (wi, wf) of
                 (Val (IntV i), Val (IntV f)) \<Rightarrow>
                   (let entries = [''WI'' \<mapsto> IntV i, ''WF'' \<mapsto> IntV f, ''W'' \<mapsto> IntV (i + f + 1)];
                        (a, wld2) =
                          (case q_arg of
                             None \<Rightarrow> dict_new entries wld1
                           | Some a \<Rightarrow>
                               (if q_dict_truthy q_arg wld1
                                then (a, dict_update_at a entries wld1)
                                else dict_new entries wld1))
                    in Inr (w\<lparr>WI := i, WF := f, W := i + f + 1, q_dict := a\<rparr>, wld2))
               | _ \<Rightarrow> Inl TypeError)))))"

section \<open>Quantizer\<close>

text \<open>
  The quantizer (\<open>pyfda.libs.pyfda_fix_lib\<close>) is not among the sources; this section
  follows sections 3 and 4.1 of the spec.
\<close>

text \<open>Modelled from the spec: the rounding modes \<open>Round\<close>, \<open>Fix\<close>, \<open>Floor\<close> of a quantizer
  config (section 3); the quantizer itself is missing from the sources.\<close>

datatype rounding = Round | Fix | Floor

text \<open>Modelled from the spec: the overflow modes \<open>Wrap\<close>, \<open>Saturate\<close> of a quantizer config
  (section 3), for the quantizer missing from the sources.\<close>

datatype overflow = Wrap | Saturate

text \<open>Modelled from the spec: the word format of the missing quantizer, with non-negative
  integers \<open>WI\<close> and \<open>WF\<close> (section 3).\<close>

record WordFormat =
  fmt_WI :: nat
  fmt_WF :: nat

text \<open>Modelled from the spec: the derived width \<open>W = WI + WF + 1\<close> of the missing quantizer's
  word format, one sign bit (section 3).\<close>

definition fmt_W :: "WordFormat \<Rightarrow> nat" where
  "fmt_W fmt = fmt_WI fmt + fmt_WF fmt + 1"

text \<open>Modelled from the spec: the config of the missing quantizer is a word format, a rounding
  mode and an overflow mode (section 3).\<close>

record QuantizerConfig =
  format :: WordFormat
  round_mode :: rounding
  overflow_mode :: overflow

text \<open>Modelled from the spec: truncation in the missing quantizer. \<open>Fix\<close> truncates toward zero
  (section 4.1, step 2); the same
  truncation is meant where the spec says a scaled coefficient is truncated to an integer
  (section 4.2).\<close>

definition trunc :: "real \<Rightarrow> int" where
  "trunc x = (if 0 \<le> x then \<lfloor>x\<rfloor> else \<lceil>x\<rceil>)"

text \<open>Modelled from the spec: rounding in the missing quantizer (section 4.1, step 2): \<open>Round\<close> rounds half away
  from zero, \<open>Fix\<close> truncates toward zero, \<open>Floor\<close> rounds toward negative infinity.\<close>

fun apply_round :: "rounding \<Rightarrow> real \<Rightarrow> int" where
  "apply_round Round x = (if 0 \<le> x then \<lfloor>x + 1 / 2\<rfloor> else \<lceil>x - 1 / 2\<rceil>)"
| "apply_round Fix x = trunc x"
| "apply_round Floor x = \<lfloor>x\<rfloor>"

text \<open>Modelled from the spec: overflow handling in the missing quantizer, against the signed range
  \<open>[-2^(W-1), 2^(W-1) - 1]\<close> (section 4.1, step 3): \<open>Wrap\<close> reduces modulo \<open>2^W\<close> and
  remaps into the signed range, \<open>Saturate\<close> clamps to the nearest boundary.\<close>

fun apply_overflow :: "overflow \<Rightarrow> nat \<Rightarrow> int \<Rightarrow> int" where
  "apply_overflow Wrap w k = (k + 2 ^ (w - 1)) mod 2 ^ w - 2 ^ (w - 1)"
| "apply_overflow Saturate w k = max (- (2 ^ (w - 1))) (min (2 ^ (w - 1) - 1) k)"

text \<open>Modelled from the spec: steps 1 to 3 of the missing quantizer (section 4.1), the raw
  scaled integer: scale
  by \<open>2^WF\<close>, round, handle overflow.\<close>

definition quantize_int :: "real \<Rightarrow> QuantizerConfig \<Rightarrow> int" where
  "quantize_int x c =
     apply_overflow (overflow_mode c) (fmt_W (format c))
       (apply_round (round_mode c) (x * 2 ^ fmt_WF (format c)))"

text \<open>Modelled from the spec: \<open>quantize(value, config)\<close> of section 4.1, missing from the
  sources; step 4 unscales by \<open>2^-WF\<close>.\<close>

definition quantize :: "real \<Rightarrow> QuantizerConfig \<Rightarrow> real" where
  "quantize x c = real_of_int (quantize_int x c) / 2 ^ fmt_WF (format c)"

section \<open>Coefficient quantization\<close>

text \<open>
  \<open>UI_W.quant_coeffs\<close> builds a quantizer object \<open>fx.Fixed(q_dict)\<close>, sets its attribute
  \<open>frmt\<close> and reads its attribute \<open>WF\<close>. The class is not among the sources: its
  constructor and the two methods called are parameters, and an object carries the two
  attributes next to whatever else the class keeps. A method returns a number or an
  array, or raises.
\<close>

record 'q fixed =
  Q_WF :: int
  Q_frmt :: string
  Q_rest :: 'q

datatype ndarray = Scalar real | Array "real list"

record 'q fixed_class =
  Fixed :: "qdict \<Rightarrow> error + 'q fixed"
  float2frmt :: "'q fixed \<Rightarrow> real list option \<Rightarrow> error + ndarray"
  fixp :: "'q fixed \<Rightarrow> real list option \<Rightarrow> error + ndarray"

text \<open>\<open>list(y)\<close> needs something to iterate over.\<close>

fun py_list :: "ndarray \<Rightarrow> error + real list" where
  "py_list (Scalar x) = Inl TypeError"
| "py_list (Array xs) = Inr xs"

fun nd_mul :: "ndarray \<Rightarrow> real \<Rightarrow> ndarray" where
  "nd_mul (Scalar x) k = Scalar (x * k)"
| "nd_mul (Array xs) k = Array (map (\<lambda>x. x * k) xs)"

text \<open>\<open>1 << n\<close> raises \<open>ValueError\<close> for a negative shift count.\<close>

definition py_lshift1 :: "int \<Rightarrow> error + int" where
  "py_lshift1 n = (if n < 0 then Inl ValueError else Inr (2 ^ nat n))"

text \<open>
  \<open>quant_coeffs(q_dict, coeffs, to_int)\<close>; \<open>coeffs = None\<close> is Python's \<open>None\<close>. The
  result is the list returned or the exception raised, next to the world with what was
  logged.
\<close>

definition quant_coeffs :: "'q fixed_class \<Rightarrow> qdict \<Rightarrow> real list option \<Rightarrow> bool \<Rightarrow> world
    \<Rightarrow> (error + real list) \<times> world" where
  "quant_coeffs FX q coeffs to_int wld =
     (case Fixed FX q of
        Inl e \<Rightarrow> (Inl e, wld)
      | Inr Q0 \<Rightarrow>
          (let Q_coeff = Q0\<lparr>Q_frmt := ''dec''\<rparr>;
               wld1 = (if coeffs = None then log_entry_add (LogError ''Coeffs empty!'') wld
                       else wld)
           in (if to_int
               then bind_err (float2frmt FX Q_coeff coeffs) (\<lambda>y.
                      bind_err (py_lshift1 (Q_WF Q_coeff)) (\<lambda>k.
                        py_list (nd_mul y (real_of_int k))))
               else bind_err (fixp FX Q_coeff coeffs) py_list,
               wld1)))"

text \<open>
  A quantizer class for \<open>quant_coeffs\<close> that follows the spec, used where a claim is about
  the quantized values themselves.
\<close>






section \<open>Example states\<close>

text \<open>
  A small configuration on which the theorems below are instantiated: the accumulator
  dictionary at address 0 (shared with both accumulator widgets), the input format at
  address 1, the formats of the \<open>b\<close> and \<open>a\<close> coefficients at addresses 2 and 3, and an
  evaluator that knows integers and two texts.
\<close>

definition ev_demo :: "val \<Rightarrow> int option" where
  "ev_demo v =
     (case v of
        IntV n \<Rightarrow> Some n
      | StrV t \<Rightarrow> (if t = ''7'' then Some 7 else if t = ''-3'' then Some (- 3) else None))"

definition ex_world :: world where
  "ex_world =
     \<lparr>heap = (\<lambda>a. Map.empty)
        (0 := [''WI'' \<mapsto> IntV 0, ''WF'' \<mapsto> IntV 30, ''W'' \<mapsto> IntV 31,
               ''ovfl'' \<mapsto> StrV ''wrap'', ''quant'' \<mapsto> StrV ''floor''],
         1 := [''WI'' \<mapsto> IntV 0, ''WF'' \<mapsto> IntV 15, ''W'' \<mapsto> IntV 16],
         2 := [''WI'' \<mapsto> IntV 1, ''WF'' \<mapsto> IntV 14, ''W'' \<mapsto> IntV 16],
         3 := [''WI'' \<mapsto> IntV 2, ''WF'' \<mapsto> IntV 13, ''W'' \<mapsto> IntV 16]),
      fresh = 4, logger = []\<rparr>"

definition ex_widget :: "string \<Rightarrow> ui_w" where
  "ex_widget mode =
     \<lparr>WI = 0, WF = 30, W = 31, q_dict = 0, ledWI = ''0'', ledWF = ''30'', cmbW = mode\<rparr>"

definition ex_iir :: "string \<Rightarrow> real list \<Rightarrow> real list \<Rightarrow> iir_ui" where
  "ex_iir mode b a =
     \<lparr>fxqc_QA = Some 0, fxqc_QI = Some 1, fxqc_QCB = Some 2, fxqc_QCA = Some 3,
      fxqc_b = Some b, fxqc_a = Some a, ba_b = b, ba_a = a,
      wdg_w_accu = ex_widget mode, wdg_q_accu_q_dict = 0, env = ex_world\<rparr>"

definition ex_taps8 :: "real list" where
  "ex_taps8 = [1 / 8, 1 / 8, 1 / 8, 1 / 8, 1 / 8, 1 / 8, 1 / 8, 1 / 8]"

definition ex_taps3 :: "real list" where
  "ex_taps3 = [1, - (5 / 2), 3 / 2]"


definition ex_kwargs :: "(string \<times> setting) list" where
  "ex_kwargs = [(''fractional'', Val (IntV 0)), (''WF'', Val (IntV 7)), (''WI'', Val (IntV 3))]"


section \<open>Properties of the accumulator sizing\<close>

subsection \<open>Auxiliary facts\<close>

lemma heap_dict_set_at_same: "heap (dict_set_at a k v w) a k = Some v"
  by (simp add: dict_set_at_def)

lemma heap_dict_set_at_other_key: "k' \<noteq> k \<Longrightarrow> heap (dict_set_at a k v w) b k' = heap w b k'"
  by (simp add: dict_set_at_def)

lemma heap_dict_set_at_other_addr: "b \<noteq> a \<Longrightarrow> heap (dict_set_at a k v w) b = heap w b"
  by (simp add: dict_set_at_def)

lemma heap_dict_update_at_keep:
  "b = a \<or> heap w b k = None \<Longrightarrow> heap (dict_update_at a (heap w b) w) a k = heap w a k"
  by (auto simp: dict_update_at_def dict_update_def map_add_def split: option.splits)

lemma dict2ui_heap: "heap (snd (dict2ui ev a st)) = heap (snd st)"
  by (simp add: dict2ui_def log_entry_add_def Let_def split: prod.splits option.splits)

text \<open>The statements after the derived assignments, from a state whose accumulator
  dictionary holds integer word lengths.\<close>

lemma accu_tail:
  assumes QA: "fxqc_QA s = Some qa"
    and vi: "heap (env s) qa ''WI'' = Some (IntV vi)"
    and vf: "heap (env s) qa ''WF'' = Some (IntV vf)"
    and qacc: "q_accu_keeps_format s qa"
  shows "\<exists>s'. run_stmts
           [QA_assign ''W''
                (e_add (e_add (fxqc_get fxqc_QA ''QA'' ''WI'') (fxqc_get fxqc_QA ''QA'' ''WF''))
                   (e_const (IntV 1))),
              QA_assign ''Q''
                (e_add (e_add (e_str (fxqc_get fxqc_QA ''QA'' ''WI'')) (e_const (StrV ''.'')))
                   (e_str (fxqc_get fxqc_QA ''QA'' ''WF''))),
              QA_update_q_accu,
              wdg_w_accu_dict2ui ev] s = (Returned, s') \<and>
          heap (env s') qa ''WI'' = Some (IntV vi) \<and>
          heap (env s') qa ''WF'' = Some (IntV vf) \<and>
          heap (env s') qa ''W'' = Some (IntV (vi + vf + 1)) \<and>
          W (wdg_w_accu s') = WI (wdg_w_accu s') + WF (wdg_w_accu s') + 1"
proof -
  define s3 where "s3 = s\<lparr>env := dict_set_at qa ''W'' (IntV (vi + vf + 1)) (env s)\<rparr>"
  define s4 where "s4 = s3\<lparr>env := dict_set_at qa ''Q'' (StrV ((str_int vi @ ''.'') @ str_int vf)) (env s3)\<rparr>"
  define s5 where "s5 = s4\<lparr>env := dict_update_at qa (heap (env s4) (wdg_q_accu_q_dict s4)) (env s4)\<rparr>"
  define r where "r = dict2ui ev (Some qa) (wdg_w_accu s5, env s5)"
  define s6 where "s6 = s5\<lparr>wdg_w_accu := fst r, env := snd r\<rparr>"
  have e3: "e_add (e_add (fxqc_get fxqc_QA ''QA'' ''WI'') (fxqc_get fxqc_QA ''QA'' ''WF''))
              (e_const (IntV 1)) s = Inr (IntV (vi + vf + 1))"
    by (simp add: e_add_def bind_err_def fxqc_get_def dict_get_def e_const_def QA vi vf)
  have st3: "QA_assign ''W''
                (e_add (e_add (fxqc_get fxqc_QA ''QA'' ''WI'') (fxqc_get fxqc_QA ''QA'' ''WF''))
                   (e_const (IntV 1))) s = Inr s3"
    by (simp add: QA_assign_def bind_err_def e3 QA s3_def)
  have QA3: "fxqc_QA s3 = Some qa" by (simp add: s3_def QA)
  have vi3: "heap (env s3) qa ''WI'' = Some (IntV vi)"
    by (simp add: s3_def heap_dict_set_at_other_key vi)
  have vf3: "heap (env s3) qa ''WF'' = Some (IntV vf)"
    by (simp add: s3_def heap_dict_set_at_other_key vf)
  have w3: "heap (env s3) qa ''W'' = Some (IntV (vi + vf + 1))"
    by (simp add: s3_def heap_dict_set_at_same)
  have e4a: "e_str (fxqc_get fxqc_QA ''QA'' ''WI'') s3 = Inr (StrV (str_int vi))"
    by (simp add: e_str_def bind_err_def fxqc_get_def dict_get_def QA3 vi3)
  have e4b: "e_str (fxqc_get fxqc_QA ''QA'' ''WF'') s3 = Inr (StrV (str_int vf))"
    by (simp add: e_str_def bind_err_def fxqc_get_def dict_get_def QA3 vf3)
  have e4c: "e_const (StrV ''.'') s3 = Inr (StrV ''.'')" by (simp add: e_const_def)
  have e4: "e_add (e_add (e_str (fxqc_get fxqc_QA ''QA'' ''WI'')) (e_const (StrV ''.'')))
                   (e_str (fxqc_get fxqc_QA ''QA'' ''WF'')) s3
            = Inr (StrV ((str_int vi @ ''.'') @ str_int vf))"
    by (simp add: e_add_def bind_err_def e4a e4b e4c)
  have st4: "QA_assign ''Q''
                (e_add (e_add (e_str (fxqc_get fxqc_QA ''QA'' ''WI'')) (e_const (StrV ''.'')))
                   (e_str (fxqc_get fxqc_QA ''QA'' ''WF''))) s3 = Inr s4"
    by (simp add: QA_assign_def bind_err_def e4 QA3 s4_def)
  have QA4: "fxqc_QA s4 = Some qa" by (simp add: s4_def QA3)
  have vi4: "heap (env s4) qa ''WI'' = Some (IntV vi)"
    by (simp add: s4_def heap_dict_set_at_other_key vi3)
  have vf4: "heap (env s4) qa ''WF'' = Some (IntV vf)"
    by (simp add: s4_def heap_dict_set_at_other_key vf3)
  have w4: "heap (env s4) qa ''W'' = Some (IntV (vi + vf + 1))"
    by (simp add: s4_def heap_dict_set_at_other_key w3)
  have wq4: "wdg_q_accu_q_dict s4 = wdg_q_accu_q_dict s" by (simp add: s4_def s3_def)
  have other4: "a \<noteq> qa \<Longrightarrow> heap (env s4) a = heap (env s) a" for a
    by (simp add: s4_def s3_def heap_dict_set_at_other_addr)
  have keep: "wdg_q_accu_q_dict s4 = qa \<or> heap (env s4) (wdg_q_accu_q_dict s4) k = None"
    if "k \<in> {''WI'', ''WF'', ''W''}" for k
  proof (cases "wdg_q_accu_q_dict s = qa")
    case True
    then show ?thesis by (simp add: wq4)
  next
    case False
    with qacc have none: "heap (env s) (wdg_q_accu_q_dict s) ''WI'' = None"
      "heap (env s) (wdg_q_accu_q_dict s) ''WF'' = None"
      "heap (env s) (wdg_q_accu_q_dict s) ''W'' = None"
      unfolding q_accu_keeps_format_def by simp_all
    have "heap (env s4) (wdg_q_accu_q_dict s) = heap (env s) (wdg_q_accu_q_dict s)"
      using False by (rule other4)
    with none that show ?thesis by (auto simp: wq4)
  qed
  have st5: "QA_update_q_accu s4 = Inr s5"
    by (simp add: QA_update_q_accu_def QA4 s5_def)
  have QA5: "fxqc_QA s5 = Some qa" by (simp add: s5_def QA4)
  have l5: "heap (env s5) qa k = heap (env s4) qa k" if "k \<in> {''WI'', ''WF'', ''W''}" for k
    using heap_dict_update_at_keep [OF keep [OF that]] by (simp add: s5_def)
  have st6: "wdg_w_accu_dict2ui ev s5 = Inr s6"
    by (simp add: wdg_w_accu_dict2ui_def QA5 s6_def r_def split: prod.splits)
  have h6: "heap (env s6) = heap (env s5)"
    using dict2ui_heap [of ev "Some qa" "(wdg_w_accu s5, env s5)"] by (simp add: s6_def r_def)
  have W6: "W (wdg_w_accu s6) = WI (wdg_w_accu s6) + WF (wdg_w_accu s6) + 1"
    by (simp add: s6_def r_def dict2ui_def Let_def split: prod.splits option.splits)
  have run: "run_stmts
           [QA_assign ''W''
                (e_add (e_add (fxqc_get fxqc_QA ''QA'' ''WI'') (fxqc_get fxqc_QA ''QA'' ''WF''))
                   (e_const (IntV 1))),
              QA_assign ''Q''
                (e_add (e_add (e_str (fxqc_get fxqc_QA ''QA'' ''WI'')) (e_const (StrV ''.'')))
                   (e_str (fxqc_get fxqc_QA ''QA'' ''WF''))),
              QA_update_q_accu,
              wdg_w_accu_dict2ui ev] s = (Returned, s6)"
    by (simp add: st3 st4 st5 st6)
  show ?thesis
    using run h6 l5 vi4 vf4 w4 W6 by auto
qed


lemma q_accu_keeps_format_frame:
  assumes "q_accu_keeps_format s qa"
    and "wdg_q_accu_q_dict s' = wdg_q_accu_q_dict s"
    and "\<And>a. a \<noteq> qa \<Longrightarrow> heap (env s') a = heap (env s) a"
  shows "q_accu_keeps_format s' qa"
  using assms unfolding q_accu_keeps_format_def by (cases "wdg_q_accu_q_dict s = qa") auto

lemma update_accu_derived:
  assumes mode: "qget_cmb_box (wdg_w_accu s) = ''full'' \<or> qget_cmb_box (wdg_w_accu s) = ''auto''"
    and A: "A_coeff_try s = Inr (Some g)"
    and QA: "fxqc_QA s = Some qa" and QI: "fxqc_QI s = Some qi" and QCB: "fxqc_QCB s = Some qcb"
    and i: "heap (env s) qi ''WI'' = Some (IntV wi_i)" "heap (env s) qi ''WF'' = Some (IntV wf_i)"
    and c: "heap (env s) qcb ''WI'' = Some (IntV wi_c)" "heap (env s) qcb ''WF'' = Some (IntV wf_c)"
    and qacc: "q_accu_keeps_format s qa"
  shows "\<exists>s'. update_accu_settings ev s = (Returned, s') \<and>
          heap (env s') qa ''WI'' = Some (IntV (wi_i + wi_c + g)) \<and>
          heap (env s') qa ''WF'' = Some (IntV (wf_i + wf_c)) \<and>
          heap (env s') qa ''W'' = Some (IntV ((wi_i + wi_c + g) + (wf_i + wf_c) + 1)) \<and>
          W (wdg_w_accu s') = WI (wdg_w_accu s') + WF (wdg_w_accu s') + 1"
proof -
  define s1 where "s1 = s\<lparr>env := dict_set_at qa ''WF'' (IntV (wf_i + wf_c)) (env s)\<rparr>"
  define s2 where "s2 = s1\<lparr>env := dict_set_at qa ''WI'' (IntV (wi_i + wi_c + g)) (env s1)\<rparr>"
  have e1: "e_add (fxqc_get fxqc_QI ''QI'' ''WF'') (fxqc_get fxqc_QCB ''QCB'' ''WF'') s
            = Inr (IntV (wf_i + wf_c))"
    by (simp add: e_add_def bind_err_def fxqc_get_def dict_get_def QI QCB i c)
  have st1: "QA_assign ''WF''
               (e_add (fxqc_get fxqc_QI ''QI'' ''WF'') (fxqc_get fxqc_QCB ''QCB'' ''WF'')) s = Inr s1"
    by (simp add: QA_assign_def bind_err_def e1 QA s1_def)
  have sel1: "fxqc_QA s1 = Some qa" "fxqc_QI s1 = Some qi" "fxqc_QCB s1 = Some qcb"
    by (simp_all add: s1_def QA QI QCB)
  have i1: "heap (env s1) qi ''WI'' = Some (IntV wi_i)"
    by (simp add: s1_def heap_dict_set_at_other_key i)
  have c1: "heap (env s1) qcb ''WI'' = Some (IntV wi_c)"
    by (simp add: s1_def heap_dict_set_at_other_key c)
  have e2: "e_add (e_add (fxqc_get fxqc_QI ''QI'' ''WI'') (fxqc_get fxqc_QCB ''QCB'' ''WI''))
              (e_A_coeff (Some g)) s1 = Inr (IntV (wi_i + wi_c + g))"
    by (simp add: e_add_def bind_err_def fxqc_get_def dict_get_def e_A_coeff_def sel1 i1 c1)
  have st2: "QA_assign ''WI''
               (e_add (e_add (fxqc_get fxqc_QI ''QI'' ''WI'') (fxqc_get fxqc_QCB ''QCB'' ''WI''))
                  (e_A_coeff (Some g))) s1 = Inr s2"
    by (simp add: QA_assign_def bind_err_def e2 sel1 s2_def)
  have QA2: "fxqc_QA s2 = Some qa" by (simp add: s2_def sel1)
  have wi2: "heap (env s2) qa ''WI'' = Some (IntV (wi_i + wi_c + g))"
    by (simp add: s2_def heap_dict_set_at_same)
  have wf2: "heap (env s2) qa ''WF'' = Some (IntV (wf_i + wf_c))"
    by (simp add: s2_def s1_def heap_dict_set_at_other_key heap_dict_set_at_same)
  have qacc2: "q_accu_keeps_format s2 qa"
    by (rule q_accu_keeps_format_frame [OF qacc])
      (simp_all add: s2_def s1_def heap_dict_set_at_other_addr)
  from accu_tail [OF QA2 wi2 wf2 qacc2, of ev] obtain s' where
    tail: "run_stmts
           [QA_assign ''W''
                (e_add (e_add (fxqc_get fxqc_QA ''QA'' ''WI'') (fxqc_get fxqc_QA ''QA'' ''WF''))
                   (e_const (IntV 1))),
              QA_assign ''Q''
                (e_add (e_add (e_str (fxqc_get fxqc_QA ''QA'' ''WI'')) (e_const (StrV ''.'')))
                   (e_str (fxqc_get fxqc_QA ''QA'' ''WF''))),
              QA_update_q_accu,
              wdg_w_accu_dict2ui ev] s2 = (Returned, s')"
    and res: "heap (env s') qa ''WI'' = Some (IntV (wi_i + wi_c + g))"
      "heap (env s') qa ''WF'' = Some (IntV (wf_i + wf_c))"
      "heap (env s') qa ''W'' = Some (IntV ((wi_i + wi_c + g) + (wf_i + wf_c) + 1))"
      "W (wdg_w_accu s') = WI (wdg_w_accu s') + WF (wdg_w_accu s') + 1"
    by blast
  let ?A1 = "QA_assign ''WF''
               (e_add (fxqc_get fxqc_QI ''QI'' ''WF'') (fxqc_get fxqc_QCB ''QCB'' ''WF''))"
  let ?A2 = "QA_assign ''WI''
               (e_add (e_add (fxqc_get fxqc_QI ''QI'' ''WI'') (fxqc_get fxqc_QCB ''QCB'' ''WI''))
                  (e_A_coeff (Some g)))"
  let ?T = "[QA_assign ''W''
                (e_add (e_add (fxqc_get fxqc_QA ''QA'' ''WI'') (fxqc_get fxqc_QA ''QA'' ''WF''))
                   (e_const (IntV 1))),
              QA_assign ''Q''
                (e_add (e_add (e_str (fxqc_get fxqc_QA ''QA'' ''WI'')) (e_const (StrV ''.'')))
                   (e_str (fxqc_get fxqc_QA ''QA'' ''WF''))),
              QA_update_q_accu,
              wdg_w_accu_dict2ui ev]"
  have "update_accu_settings ev s = run_stmts (?A1 # ?A2 # ?T) s"
    using mode by (simp add: update_accu_settings_def A del: run_stmts.simps)
  also have "\<dots> = run_stmts ?T s2"
    by (simp only: run_stmts.simps(2) st1 st2 sum.case)
  finally have "update_accu_settings ev s = (Returned, s')"
    by (simp only: tail)
  with res show ?thesis by blast
qed

lemma update_accu_manual:
  assumes mode: "qget_cmb_box (wdg_w_accu s) \<noteq> ''full''" "qget_cmb_box (wdg_w_accu s) \<noteq> ''auto''"
    and QA: "fxqc_QA s = Some qa"
    and a: "heap (env s) qa ''WI'' = Some (IntV vi)" "heap (env s) qa ''WF'' = Some (IntV vf)"
    and qacc: "q_accu_keeps_format s qa"
  shows "\<exists>s'. update_accu_settings ev s = (Returned, s') \<and>
          heap (env s') qa ''WI'' = Some (IntV vi) \<and>
          heap (env s') qa ''WF'' = Some (IntV vf) \<and>
          heap (env s') qa ''W'' = Some (IntV (vi + vf + 1)) \<and>
          W (wdg_w_accu s') = WI (wdg_w_accu s') + WF (wdg_w_accu s') + 1"
proof -
  have A: "A_coeff_try s = Inr None"
    using mode by (simp add: A_coeff_try_def)
  from accu_tail [OF QA a qacc, of ev] show ?thesis
    using mode by (simp add: update_accu_settings_def A)
qed

lemma update_accu_error:
  assumes "A_coeff_try s = Inl e"
  shows "update_accu_settings ev s = (Returned, s\<lparr>env := log_entry_add (LogException e) (env s)\<rparr>)"
  using assms by (simp add: update_accu_settings_def)

lemma ceiling_log2_8: "\<lceil>log 2 (8::real)\<rceil> = 3"
proof -
  have "log 2 (8::real) = log 2 (2 ^ 3)" by simp
  also have "\<dots> = 3" by (subst log_nat_power) simp_all
  finally show ?thesis by simp
qed


lemmas ex_defs = ex_iir_def ex_widget_def ex_world_def qget_cmb_box_def q_accu_keeps_format_def
  ex_taps8_def ex_taps3_def

subsection \<open>Derived word formats\<close>

text \<open>
  Claim C1. In mode \<open>'full'\<close>, for a non-empty list \<open>b\<close> of feed-forward taps and integer
  word lengths of the input and of the \<open>b\<close> coefficients, the sizing returns normally with
  bit growth \<open>G = ceil(log2(N))\<close>, \<open>N\<close> the number of taps, and leaves
  \<open>WI_acc = WI_input + WI_coeff + G\<close>, \<open>WF_acc = WF_input + WF_coeff\<close> and
  \<open>W_acc = WI_acc + WF_acc + 1\<close> in the accumulator dictionary; for \<open>N = 8\<close> the growth
  is 3.
\<close>

theorem accu_full_word_format:
  assumes "qget_cmb_box (wdg_w_accu s) = ''full''"
    and "fxqc_b s = Some b" and "b \<noteq> []"
    and "fxqc_QA s = Some qa" and "fxqc_QI s = Some qi" and "fxqc_QCB s = Some qcb"
    and "heap (env s) qi ''WI'' = Some (IntV wi_i)" and "heap (env s) qi ''WF'' = Some (IntV wf_i)"
    and "heap (env s) qcb ''WI'' = Some (IntV wi_c)" and "heap (env s) qcb ''WF'' = Some (IntV wf_c)"
    and "q_accu_keeps_format s qa"
  shows "\<exists>s'. update_accu_settings ev s = (Returned, s') \<and>
          A_coeff_try s = Inr (Some \<lceil>log 2 (real (length b))\<rceil>) \<and>
          heap (env s') qa ''WI'' = Some (IntV (wi_i + wi_c + \<lceil>log 2 (real (length b))\<rceil>)) \<and>
          heap (env s') qa ''WF'' = Some (IntV (wf_i + wf_c)) \<and>
          heap (env s') qa ''W'' =
            Some (IntV ((wi_i + wi_c + \<lceil>log 2 (real (length b))\<rceil>) + (wf_i + wf_c) + 1)) \<and>
          (length b = 8 \<longrightarrow> A_coeff_try s = Inr (Some 3))"
proof -
  have A: "A_coeff_try s = Inr (Some \<lceil>log 2 (real (length b))\<rceil>)"
    using assms(1-3) by (simp add: A_coeff_try_def int_ceil_log2_def)
  have eight: "length b = 8 \<Longrightarrow> \<lceil>log 2 (real (length b))\<rceil> = 3"
    by (simp add: ceiling_log2_8)
  from update_accu_derived [OF _ A assms(4-11), of ev] assms(1) A eight
  show ?thesis by auto
qed

theorem accu_full_word_format_witness:
  "\<exists>s'. update_accu_settings ev_demo (ex_iir ''full'' ex_taps8 [1]) = (Returned, s') \<and>
     A_coeff_try (ex_iir ''full'' ex_taps8 [1]) = Inr (Some 3) \<and>
     heap (env s') 0 ''WI'' = Some (IntV 4) \<and>
     heap (env s') 0 ''WF'' = Some (IntV 29) \<and>
     heap (env s') 0 ''W'' = Some (IntV 34)"
proof -
  let ?s = "ex_iir ''full'' ex_taps8 [1]"
  have len: "length ex_taps8 = 8" by (simp add: ex_taps8_def)
  have "\<exists>s'. update_accu_settings ev_demo ?s = (Returned, s') \<and>
          A_coeff_try ?s = Inr (Some \<lceil>log 2 (real (length ex_taps8))\<rceil>) \<and>
          heap (env s') 0 ''WI'' = Some (IntV (0 + 1 + \<lceil>log 2 (real (length ex_taps8))\<rceil>)) \<and>
          heap (env s') 0 ''WF'' = Some (IntV (15 + 14)) \<and>
          heap (env s') 0 ''W'' =
            Some (IntV ((0 + 1 + \<lceil>log 2 (real (length ex_taps8))\<rceil>) + (15 + 14) + 1)) \<and>
          (length ex_taps8 = 8 \<longrightarrow> A_coeff_try ?s = Inr (Some 3))"
    by (rule accu_full_word_format [where qi = 1 and qcb = 2]) (simp_all add: ex_defs)
  then show ?thesis by (auto simp: len ceiling_log2_8)
qed



subsection \<open>Sizing errors\<close>

lemmas accu_eval_defs = update_accu_settings_def A_coeff_try_def int_ceil_log2_def
  QA_assign_def e_add_def e_str_def e_const_def e_A_coeff_def fxqc_get_def dict_get_def
  bind_err_def dict_set_at_def QA_update_q_accu_def dict_update_at_def dict_update_def
  wdg_w_accu_dict2ui_def dict2ui_def safe_eval_def ev_demo_def log_entry_add_def

text \<open>
  Claim C3, as stated, fails in mode \<open>'full'\<close> on a non-empty list of taps whose absolute
  values sum to zero: the growth comes from the number of taps, no error is logged and the
  accumulator format changes (here \<open>WI\<close> from 0 to 2).
\<close>

theorem accu_sizing_error_counterexample:
  "qget_cmb_box (wdg_w_accu (ex_iir ''full'' [0, 0] [1])) = ''full'' \<and>
   fxqc_b (ex_iir ''full'' [0, 0] [1]) = Some [0, 0] \<and>
   sum_list (map abs (ba_b (ex_iir ''full'' [0, 0] [1]))) = 0 \<and>
   width_consistent (heap (env (ex_iir ''full'' [0, 0] [1])) 0) \<and>
   heap (env (ex_iir ''full'' [0, 0] [1])) 0 ''WI'' = Some (IntV 0) \<and>
   fst (update_accu_settings ev_demo (ex_iir ''full'' [0, 0] [1])) = Returned \<and>
   logger (env (snd (update_accu_settings ev_demo (ex_iir ''full'' [0, 0] [1])))) = [] \<and>
   heap (env (snd (update_accu_settings ev_demo (ex_iir ''full'' [0, 0] [1])))) 0 ''WI''
     = Some (IntV 2)"
  by (simp add: ex_defs width_consistent_def accu_eval_defs)

text \<open>
  Claim C3, amended. In mode \<open>'full'\<close> with an empty list of taps, or in mode \<open>'auto'\<close>
  with coefficients whose absolute values sum to zero (an empty list included), the sizing
  logs the exception and returns normally; the dictionaries, hence the stored
  accumulator word format, and the widget are unchanged.
\<close>

theorem accu_sizing_error_retains_format:
  assumes "(qget_cmb_box (wdg_w_accu s) = ''full'' \<and> fxqc_b s = Some []) \<or>
           (qget_cmb_box (wdg_w_accu s) = ''auto'' \<and> (\<Sum>x\<leftarrow>ba_b s. \<bar>x\<bar>) = 0)"
  shows "update_accu_settings ev s =
           (Returned, s\<lparr>env := log_entry_add (LogException OverflowError) (env s)\<rparr>) \<and>
         heap (env (snd (update_accu_settings ev s))) = heap (env s) \<and>
         wdg_w_accu (snd (update_accu_settings ev s)) = wdg_w_accu s"
proof -
  have "A_coeff_try s = Inl OverflowError"
    using assms by (auto simp: A_coeff_try_def int_ceil_log2_def)
  then show ?thesis
    by (simp add: update_accu_error log_entry_add_def)
qed

theorem accu_sizing_error_retains_format_witness:
  "update_accu_settings ev_demo (ex_iir ''auto'' [] [1]) =
     (Returned, (ex_iir ''auto'' [] [1])
        \<lparr>env := log_entry_add (LogException OverflowError) (env (ex_iir ''auto'' [] [1]))\<rparr>) \<and>
   heap (env (snd (update_accu_settings ev_demo (ex_iir ''auto'' [] [1])))) 0 ''WI'' = Some (IntV 0) \<and>
   heap (env (snd (update_accu_settings ev_demo (ex_iir ''auto'' [] [1])))) 0 ''WF'' = Some (IntV 30) \<and>
   heap (env (snd (update_accu_settings ev_demo (ex_iir ''auto'' [] [1])))) 0 ''W'' = Some (IntV 31)"
proof -
  have h: "(qget_cmb_box (wdg_w_accu (ex_iir ''auto'' [] [1])) = ''full'' \<and>
            fxqc_b (ex_iir ''auto'' [] [1]) = Some []) \<or>
           (qget_cmb_box (wdg_w_accu (ex_iir ''auto'' [] [1])) = ''auto'' \<and>
            (\<Sum>x\<leftarrow>ba_b (ex_iir ''auto'' [] [1]). \<bar>x\<bar>) = 0)"
    by (simp add: ex_defs)
  have "heap (env (ex_iir ''auto'' [] [1])) 0 ''WI'' = Some (IntV 0)"
    "heap (env (ex_iir ''auto'' [] [1])) 0 ''WF'' = Some (IntV 30)"
    "heap (env (ex_iir ''auto'' [] [1])) 0 ''W'' = Some (IntV 31)"
    by (simp_all add: ex_defs)
  with accu_sizing_error_retains_format [OF h, of ev_demo] show ?thesis
    by (simp add: log_entry_add_def)
qed

subsection \<open>No influence of the feedback coefficients\<close>

lemma map_sum_Some: "map_sum id Some x = Inr A \<Longrightarrow> \<exists>g. A = Some g"
  by (cases x) auto

lemma A_coeff_try_derived:
  assumes "qget_cmb_box (wdg_w_accu s) = ''full'' \<or> qget_cmb_box (wdg_w_accu s) = ''auto''"
    and "A_coeff_try s = Inr A"
  shows "\<exists>g. A = Some g"
proof (cases "qget_cmb_box (wdg_w_accu s) = ''full''")
  case True
  with assms(2) show ?thesis
    by (cases "fxqc_b s") (auto simp: A_coeff_try_def dest: map_sum_Some)
next
  case False
  with assms show ?thesis
    by (auto simp: A_coeff_try_def dest: map_sum_Some)
qed

text \<open>
  Claim C8. Two runs of the sizing in the same derived mode that agree on the \<open>b\<close>
  coefficients (quantized and floating point), on the word lengths of the input and on
  those of the \<open>b\<close> coefficients end alike, whatever the \<open>a\<close> coefficients and their word
  format are: both return normally, and either both compute the same \<open>WI\<close>, \<open>WF\<close> and
  \<open>W\<close> of the accumulator, or both log the sizing error and keep their dictionaries.
\<close>

theorem accu_sizing_ignores_feedback:
  assumes mode: "qget_cmb_box (wdg_w_accu s) = qget_cmb_box (wdg_w_accu s')"
      "qget_cmb_box (wdg_w_accu s) = ''full'' \<or> qget_cmb_box (wdg_w_accu s) = ''auto''"
    and b: "fxqc_b s = fxqc_b s'" "ba_b s = ba_b s'"
    and QA: "fxqc_QA s = Some qa" "fxqc_QA s' = Some qa'"
    and QI: "fxqc_QI s = Some qi" "fxqc_QI s' = Some qi'"
    and QCB: "fxqc_QCB s = Some qcb" "fxqc_QCB s' = Some qcb'"
    and i1: "heap (env s) qi ''WI'' = Some (IntV wi_i)" "heap (env s) qi ''WF'' = Some (IntV wf_i)"
    and i2: "heap (env s') qi' ''WI'' = Some (IntV wi_i)" "heap (env s') qi' ''WF'' = Some (IntV wf_i)"
    and c1: "heap (env s) qcb ''WI'' = Some (IntV wi_c)" "heap (env s) qcb ''WF'' = Some (IntV wf_c)"
    and c2: "heap (env s') qcb' ''WI'' = Some (IntV wi_c)" "heap (env s') qcb' ''WF'' = Some (IntV wf_c)"
    and qacc: "q_accu_keeps_format s qa" "q_accu_keeps_format s' qa'"
  shows "fst (update_accu_settings ev s) = Returned \<and>
         fst (update_accu_settings ev s') = Returned \<and>
         (case A_coeff_try s of
            Inl e \<Rightarrow>
              heap (env (snd (update_accu_settings ev s))) = heap (env s) \<and>
              heap (env (snd (update_accu_settings ev s'))) = heap (env s')
          | Inr g \<Rightarrow>
              heap (env (snd (update_accu_settings ev s))) qa ''WI'' =
                heap (env (snd (update_accu_settings ev s'))) qa' ''WI'' \<and>
              heap (env (snd (update_accu_settings ev s))) qa ''WF'' =
                heap (env (snd (update_accu_settings ev s'))) qa' ''WF'' \<and>
              heap (env (snd (update_accu_settings ev s))) qa ''W'' =
                heap (env (snd (update_accu_settings ev s'))) qa' ''W'')"
proof -
  have same: "A_coeff_try s' = A_coeff_try s"
    using mode(1) b by (simp add: A_coeff_try_def)
  have mode2: "qget_cmb_box (wdg_w_accu s') = ''full'' \<or> qget_cmb_box (wdg_w_accu s') = ''auto''"
    using mode by simp
  show ?thesis
  proof (cases "A_coeff_try s")
    case (Inl e)
    with same have "A_coeff_try s' = Inl e" by simp
    with Inl show ?thesis
      by (simp add: update_accu_error log_entry_add_def)
  next
    case (Inr A)
    with A_coeff_try_derived [OF mode(2)] obtain g where g: "A_coeff_try s = Inr (Some g)"
      by blast
    with same have g2: "A_coeff_try s' = Inr (Some g)" by simp
    from update_accu_derived [OF mode(2) g QA(1) QI(1) QCB(1) i1 c1 qacc(1), of ev]
      update_accu_derived [OF mode2 g2 QA(2) QI(2) QCB(2) i2 c2 qacc(2), of ev]
    show ?thesis using g by auto
  qed
qed

theorem accu_sizing_ignores_feedback_witness:
  "fst (update_accu_settings ev_demo (ex_iir ''full'' ex_taps8 [1])) = Returned \<and>
   fst (update_accu_settings ev_demo
          ((ex_iir ''full'' ex_taps8 [1, - (1 / 2)])\<lparr>fxqc_QCA := Some 1\<rparr>)) = Returned \<and>
   heap (env (snd (update_accu_settings ev_demo (ex_iir ''full'' ex_taps8 [1])))) 0 ''WI'' =
     heap (env (snd (update_accu_settings ev_demo
       ((ex_iir ''full'' ex_taps8 [1, - (1 / 2)])\<lparr>fxqc_QCA := Some 1\<rparr>)))) 0 ''WI'' \<and>
   heap (env (snd (update_accu_settings ev_demo (ex_iir ''full'' ex_taps8 [1])))) 0 ''WF'' =
     heap (env (snd (update_accu_settings ev_demo
       ((ex_iir ''full'' ex_taps8 [1, - (1 / 2)])\<lparr>fxqc_QCA := Some 1\<rparr>)))) 0 ''WF'' \<and>
   heap (env (snd (update_accu_settings ev_demo (ex_iir ''full'' ex_taps8 [1])))) 0 ''W'' =
     heap (env (snd (update_accu_settings ev_demo
       ((ex_iir ''full'' ex_taps8 [1, - (1 / 2)])\<lparr>fxqc_QCA := Some 1\<rparr>)))) 0 ''W''"
proof -
  let ?s1 = "ex_iir ''full'' ex_taps8 [1]"
  let ?s2 = "(ex_iir ''full'' ex_taps8 [1, - (1 / 2)])\<lparr>fxqc_QCA := Some 1\<rparr>"
  have A: "A_coeff_try ?s1 = Inr (Some 3)"
    by (simp add: A_coeff_try_def int_ceil_log2_def ex_defs ceiling_log2_8)
  have "fst (update_accu_settings ev_demo ?s1) = Returned \<and>
         fst (update_accu_settings ev_demo ?s2) = Returned \<and>
         (case A_coeff_try ?s1 of
            Inl e \<Rightarrow>
              heap (env (snd (update_accu_settings ev_demo ?s1))) = heap (env ?s1) \<and>
              heap (env (snd (update_accu_settings ev_demo ?s2))) = heap (env ?s2)
          | Inr g \<Rightarrow>
              heap (env (snd (update_accu_settings ev_demo ?s1))) 0 ''WI'' =
                heap (env (snd (update_accu_settings ev_demo ?s2))) 0 ''WI'' \<and>
              heap (env (snd (update_accu_settings ev_demo ?s1))) 0 ''WF'' =
                heap (env (snd (update_accu_settings ev_demo ?s2))) 0 ''WF'' \<and>
              heap (env (snd (update_accu_settings ev_demo ?s1))) 0 ''W'' =
                heap (env (snd (update_accu_settings ev_demo ?s2))) 0 ''W'')"
    by (rule accu_sizing_ignores_feedback [where qi = 1 and qi' = 1 and qcb = 2 and qcb' = 2
          and wi_i = 0 and wf_i = 15 and wi_c = 1 and wf_c = 14])
      (simp_all add: ex_defs)
  then show ?thesis by (simp add: A)
qed

section \<open>Properties of the word length widget\<close>

lemma safe_eval_nonneg: "0 \<le> safe_eval ev e a"
  by (simp add: safe_eval_def split: option.splits)

lemma ui2dict_attrs:
  "W (fst (ui2dict ev sender a (w, wld))) =
     WI (fst (ui2dict ev sender a (w, wld))) + WF (fst (ui2dict ev sender a (w, wld))) + 1"
  "0 \<le> WI (fst (ui2dict ev sender a (w, wld)))"
  "0 \<le> WF (fst (ui2dict ev sender a (w, wld)))"
  "q_dict (fst (ui2dict ev sender a (w, wld))) = q_dict w"
  by (simp_all add: ui2dict_def Let_def safe_eval_nonneg)

lemma ui2dict_dict:
  "heap (snd (ui2dict ev sender a (w, wld))) (q_dict w) ''WI''
     = Some (IntV (WI (fst (ui2dict ev sender a (w, wld)))))"
  "heap (snd (ui2dict ev sender a (w, wld))) (q_dict w) ''WF''
     = Some (IntV (WF (fst (ui2dict ev sender a (w, wld)))))"
  "heap (snd (ui2dict ev sender a (w, wld))) (q_dict w) ''W''
     = Some (IntV (W (fst (ui2dict ev sender a (w, wld)))))"
  by (simp_all add: ui2dict_def Let_def dict_update_at_def dict_update_def log_entry_add_def)

lemma dict2ui_attrs:
  "W (fst (dict2ui ev q (w, wld))) =
     WI (fst (dict2ui ev q (w, wld))) + WF (fst (dict2ui ev q (w, wld))) + 1"
  by (simp add: dict2ui_def Let_def split: prod.splits option.splits)

lemma dict2ui_nonneg:
  "0 \<le> WI w \<Longrightarrow> 0 \<le> WI (fst (dict2ui ev q (w, wld)))"
  "0 \<le> WF w \<Longrightarrow> 0 \<le> WF (fst (dict2ui ev q (w, wld)))"
  by (auto simp: dict2ui_def Let_def safe_eval_nonneg split: prod.splits option.splits)


lemma has_word_lengthsE:
  assumes "has_word_lengths d"
  obtains i f where "d ''WI'' = Some (IntV i)" "d ''WF'' = Some (IntV f)"
  using assms by (auto simp: has_word_lengths_def split: option.splits val.splits)

lemma width_consistentI:
  "d ''WI'' = Some (IntV i) \<Longrightarrow> d ''WF'' = Some (IntV f) \<Longrightarrow> d ''W'' = Some (IntV (i + f + 1))
   \<Longrightarrow> width_consistent d"
  by (simp add: width_consistent_def)

lemma sizing_ready_result:
  assumes ready: "sizing_ready s qa" and A: "A_coeff_try s = Inr A"
  shows "fst (update_accu_settings ev s) = Returned \<and>
         width_consistent (heap (env (snd (update_accu_settings ev s))) qa) \<and>
         W (wdg_w_accu (snd (update_accu_settings ev s))) =
           WI (wdg_w_accu (snd (update_accu_settings ev s))) +
           WF (wdg_w_accu (snd (update_accu_settings ev s))) + 1"
proof (cases "qget_cmb_box (wdg_w_accu s) = ''full'' \<or> qget_cmb_box (wdg_w_accu s) = ''auto''")
  case True
  from ready have QA: "fxqc_QA s = Some qa" and qacc: "q_accu_keeps_format s qa"
    by (simp_all add: sizing_ready_def)
  from ready True obtain qi qcb where QI: "fxqc_QI s = Some qi" and QCB: "fxqc_QCB s = Some qcb"
    and hi: "has_word_lengths (heap (env s) qi)" and hc: "has_word_lengths (heap (env s) qcb)"
    by (auto simp: sizing_ready_def split: option.splits)
  from hi obtain wi_i wf_i where i: "heap (env s) qi ''WI'' = Some (IntV wi_i)"
    "heap (env s) qi ''WF'' = Some (IntV wf_i)" by (rule has_word_lengthsE)
  from hc obtain wi_c wf_c where c: "heap (env s) qcb ''WI'' = Some (IntV wi_c)"
    "heap (env s) qcb ''WF'' = Some (IntV wf_c)" by (rule has_word_lengthsE)
  from A_coeff_try_derived [OF True A] obtain g where g: "A_coeff_try s = Inr (Some g)"
    using A by blast
  from update_accu_derived [OF True g QA QI QCB i c qacc, of ev] show ?thesis
    by (auto intro: width_consistentI)
next
  case False
  from ready have QA: "fxqc_QA s = Some qa" and qacc: "q_accu_keeps_format s qa"
    by (simp_all add: sizing_ready_def)
  from ready False have "has_word_lengths (heap (env s) qa)"
    by (simp add: sizing_ready_def)
  then obtain vi vf where a: "heap (env s) qa ''WI'' = Some (IntV vi)"
    "heap (env s) qa ''WF'' = Some (IntV vf)" by (rule has_word_lengthsE)
  from False have m: "qget_cmb_box (wdg_w_accu s) \<noteq> ''full''" "qget_cmb_box (wdg_w_accu s) \<noteq> ''auto''"
    by simp_all
  from update_accu_manual [OF m QA a qacc, of ev] show ?thesis
    by (auto intro: width_consistentI)
qed

text \<open>
  Claim C5. Every update recomputes the total width from the two word lengths: after
  \<open>ui2dict\<close> the attribute \<open>W\<close> and the entry \<open>'W'\<close> of the widget's dictionary are
  \<open>WI + WF + 1\<close>; after \<open>dict2ui\<close> the attribute \<open>W\<close> is \<open>WI + WF + 1\<close>; a sizing of the
  accumulator that finds the word lengths it reads returns normally and either leaves
  \<open>'W' = 'WI' + 'WF' + 1\<close> in the accumulator dictionary and \<open>W = WI + WF + 1\<close> in the
  widget, or (on a sizing error) changes neither the dictionaries nor the widget.
\<close>

theorem total_width_recomputed:
  "(case ui2dict ev sender a (w, wld) of
      (w', wld') \<Rightarrow>
        W w' = WI w' + WF w' + 1 \<and>
        heap wld' (q_dict w') ''WI'' = Some (IntV (WI w')) \<and>
        heap wld' (q_dict w') ''WF'' = Some (IntV (WF w')) \<and>
        heap wld' (q_dict w') ''W'' = Some (IntV (WI w' + WF w' + 1))) \<and>
   (case dict2ui ev q (w, wld) of (w', wld') \<Rightarrow> W w' = WI w' + WF w' + 1) \<and>
   (sizing_ready s qa \<longrightarrow>
      fst (update_accu_settings ev s) = Returned \<and>
      (case A_coeff_try s of
         Inr A \<Rightarrow>
           width_consistent (heap (env (snd (update_accu_settings ev s))) qa) \<and>
           W (wdg_w_accu (snd (update_accu_settings ev s))) =
             WI (wdg_w_accu (snd (update_accu_settings ev s))) +
             WF (wdg_w_accu (snd (update_accu_settings ev s))) + 1
       | Inl e \<Rightarrow>
           heap (env (snd (update_accu_settings ev s))) = heap (env s) \<and>
           wdg_w_accu (snd (update_accu_settings ev s)) = wdg_w_accu s))"
proof (intro conjI impI)
  show "case ui2dict ev sender a (w, wld) of
      (w', wld') \<Rightarrow>
        W w' = WI w' + WF w' + 1 \<and>
        heap wld' (q_dict w') ''WI'' = Some (IntV (WI w')) \<and>
        heap wld' (q_dict w') ''WF'' = Some (IntV (WF w')) \<and>
        heap wld' (q_dict w') ''W'' = Some (IntV (WI w' + WF w' + 1))"
    using ui2dict_attrs(1,4) [of ev sender a w wld] ui2dict_dict [of ev sender a w wld]
    by (cases "ui2dict ev sender a (w, wld)") simp
  show "case dict2ui ev q (w, wld) of (w', wld') \<Rightarrow> W w' = WI w' + WF w' + 1"
    using dict2ui_attrs [of ev q w wld] by (cases "dict2ui ev q (w, wld)") simp
next
  assume ready: "sizing_ready s qa"
  show "fst (update_accu_settings ev s) = Returned"
  proof (cases "A_coeff_try s")
    case (Inl e)
    then show ?thesis by (simp add: update_accu_error)
  next
    case (Inr A)
    with sizing_ready_result [OF ready] show ?thesis by simp
  qed
  show "case A_coeff_try s of
         Inr A \<Rightarrow>
           width_consistent (heap (env (snd (update_accu_settings ev s))) qa) \<and>
           W (wdg_w_accu (snd (update_accu_settings ev s))) =
             WI (wdg_w_accu (snd (update_accu_settings ev s))) +
             WF (wdg_w_accu (snd (update_accu_settings ev s))) + 1
       | Inl e \<Rightarrow>
           heap (env (snd (update_accu_settings ev s))) = heap (env s) \<and>
           wdg_w_accu (snd (update_accu_settings ev s)) = wdg_w_accu s"
  proof (cases "A_coeff_try s")
    case (Inl e)
    then show ?thesis by (simp add: update_accu_error log_entry_add_def)
  next
    case (Inr A)
    with sizing_ready_result [OF ready Inr, of ev] show ?thesis by simp
  qed
qed

theorem total_width_recomputed_witness:
  "sizing_ready (ex_iir ''man'' ex_taps8 [1]) 0 \<and>
   A_coeff_try (ex_iir ''man'' ex_taps8 [1]) = Inr None \<and>
   fst (update_accu_settings ev_demo (ex_iir ''man'' ex_taps8 [1])) = Returned \<and>
   width_consistent (heap (env (snd (update_accu_settings ev_demo (ex_iir ''man'' ex_taps8 [1])))) 0) \<and>
   W (wdg_w_accu (snd (update_accu_settings ev_demo (ex_iir ''man'' ex_taps8 [1])))) =
     WI (wdg_w_accu (snd (update_accu_settings ev_demo (ex_iir ''man'' ex_taps8 [1])))) +
     WF (wdg_w_accu (snd (update_accu_settings ev_demo (ex_iir ''man'' ex_taps8 [1])))) + 1"
proof -
  let ?s = "ex_iir ''man'' ex_taps8 [1]"
  have ready: "sizing_ready ?s 0"
    by (simp add: sizing_ready_def has_word_lengths_def ex_defs)
  have A: "A_coeff_try ?s = Inr None"
    by (simp add: A_coeff_try_def ex_defs)
  from total_width_recomputed [of ev_demo None None "ex_widget ''man''" ex_world None ?s 0]
    ready A
  show ?thesis by simp
qed

text \<open>
  Claim C7. Whatever text the line edits hold and whatever dictionary is passed in, the
  word lengths a widget stores after \<open>ui2dict\<close> or \<open>dict2ui\<close> are non-negative integers,
  and so are the entries \<open>'WI'\<close> and \<open>'WF'\<close> that \<open>ui2dict\<close> writes to the dictionary.
\<close>

theorem word_lengths_nonnegative:
  "(ui_w_reachable ev w \<longrightarrow> 0 \<le> WI w \<and> 0 \<le> WF w) \<and>
   (case ui2dict ev sender a (w0, wld) of
      (w', wld') \<Rightarrow>
        heap wld' (q_dict w') ''WI'' = Some (IntV (WI w')) \<and> 0 \<le> WI w' \<and>
        heap wld' (q_dict w') ''WF'' = Some (IntV (WF w')) \<and> 0 \<le> WF w')"
proof (intro conjI impI)
  assume "ui_w_reachable ev w"
  then have "0 \<le> WI w \<and> 0 \<le> WF w"
  proof (induction rule: ui_w_reachable.induct)
    case (after_ui2dict sender a w wld)
    show ?case by (simp add: ui2dict_attrs)
  next
    case (after_dict2ui w q wld)
    then show ?case by (simp add: dict2ui_nonneg)
  qed
  then show "0 \<le> WI w" and "0 \<le> WF w" by simp_all
next
  show "case ui2dict ev sender a (w0, wld) of
      (w', wld') \<Rightarrow>
        heap wld' (q_dict w') ''WI'' = Some (IntV (WI w')) \<and> 0 \<le> WI w' \<and>
        heap wld' (q_dict w') ''WF'' = Some (IntV (WF w')) \<and> 0 \<le> WF w'"
    using ui2dict_attrs(2,3,4) [of ev sender a w0 wld] ui2dict_dict(1,2) [of ev sender a w0 wld]
    by (cases "ui2dict ev sender a (w0, wld)") simp
qed

theorem word_lengths_nonnegative_witness:
  "ui_w_reachable ev_demo
     (fst (ui2dict ev_demo None (Some ''init'')
             ((ex_widget ''man'')\<lparr>ledWI := ''-3'', ledWF := ''7''\<rparr>, ex_world))) \<and>
   WI (fst (ui2dict ev_demo None (Some ''init'')
             ((ex_widget ''man'')\<lparr>ledWI := ''-3'', ledWF := ''7''\<rparr>, ex_world))) = 0 \<and>
   WF (fst (ui2dict ev_demo None (Some ''init'')
             ((ex_widget ''man'')\<lparr>ledWI := ''-3'', ledWF := ''7''\<rparr>, ex_world))) = 7 \<and>
   0 \<le> WI (fst (ui2dict ev_demo None (Some ''init'')
             ((ex_widget ''man'')\<lparr>ledWI := ''-3'', ledWF := ''7''\<rparr>, ex_world))) \<and>
   0 \<le> WF (fst (ui2dict ev_demo None (Some ''init'')
             ((ex_widget ''man'')\<lparr>ledWI := ''-3'', ledWF := ''7''\<rparr>, ex_world)))"
proof -
  let ?w = "fst (ui2dict ev_demo None (Some ''init'')
             ((ex_widget ''man'')\<lparr>ledWI := ''-3'', ledWF := ''7''\<rparr>, ex_world))"
  have r: "ui_w_reachable ev_demo ?w" by (rule after_ui2dict)
  have v: "WI ?w = 0" "WF ?w = 7"
    by (simp_all add: ui2dict_def Let_def safe_eval_def ev_demo_def ex_widget_def)
  from word_lengths_nonnegative [of ev_demo ?w None None "ex_widget ''man''" ex_world] r v
  show ?thesis by simp
qed

subsection \<open>Construction without fractional bits\<close>

lemma dict_update_at_heap: "heap (dict_update_at a d wld) a = heap wld a ++ d"
  by (simp add: dict_update_at_def dict_update_def)

text \<open>
  Claim C10. When the setting \<open>'fractional'\<close> is false after the defaults, the quantizer
  dictionary and the keyword arguments have been merged, a construction that succeeds
  stores \<open>WF = 0\<close> and \<open>W = WI + 1\<close>, in the attributes and in the widget's dictionary,
  whichever value of \<open>'WF'\<close> the dictionary or the keyword arguments supply.
\<close>

theorem construct_UI_not_fractional:
  assumes frac: "setting_get (fst (merge_settings q_arg kwargs wld)) ''fractional'' = Inr v"
    and off: "\<not> truthy_setting v"
    and ok: "construct_UI q_arg kwargs (w, wld) = Inr (w', wld')"
  shows "WF w' = 0 \<and> W w' = WI w' + 1 \<and>
         heap wld' (q_dict w') ''WI'' = Some (IntV (WI w')) \<and>
         heap wld' (q_dict w') ''WF'' = Some (IntV 0) \<and>
         heap wld' (q_dict w') ''W'' = Some (IntV (WI w' + 1))"
proof -
  obtain d0 wld1 where m: "merge_settings q_arg kwargs wld = (d0, wld1)"
    by (cases "merge_settings q_arg kwargs wld")
  from frac m have f: "setting_get d0 ''fractional'' = Inr v" by simp
  let ?d = "d0(''WF'' \<mapsto> Val (IntV 0))"
  have wf: "setting_get ?d ''WF'' = Inr (Val (IntV 0))" by (simp add: setting_get_def)
  from ok m f off wf show ?thesis
    by (auto simp: construct_UI_def bind_err_def Let_def dict_new_def dict_update_at_heap
        split: sum.splits setting.splits val.splits prod.splits option.splits if_splits)
qed

theorem construct_UI_not_fractional_witness:
  "setting_get (fst (merge_settings (Some 1) ex_kwargs ex_world)) ''fractional'' = Inr (Val (IntV 0)) \<and>
   \<not> truthy_setting (Val (IntV 0)) \<and>
   (\<exists>w' wld'. construct_UI (Some 1) ex_kwargs (ex_widget ''man'', ex_world) = Inr (w', wld') \<and>
      WI w' = 3 \<and> WF w' = 0 \<and> W w' = 4 \<and> heap wld' (q_dict w') ''WF'' = Some (IntV 0) \<and>
      heap wld' (q_dict w') ''W'' = Some (IntV 4))"
proof -
  have m: "fst (merge_settings (Some 1) ex_kwargs ex_world) ''fractional'' = Some (Val (IntV 0))"
    by (simp add: merge_settings_def ex_kwargs_def dict_ui_default_def q_dict_truthy_def
        ex_world_def map_add_def)
  then have f: "setting_get (fst (merge_settings (Some 1) ex_kwargs ex_world)) ''fractional''
      = Inr (Val (IntV 0))"
    by (simp add: setting_get_def)
  have off: "\<not> truthy_setting (Val (IntV 0))" by simp
  obtain w' wld' where
    c: "construct_UI (Some 1) ex_kwargs (ex_widget ''man'', ex_world) = Inr (w', wld')"
    and i: "WI w' = 3"
    by (simp add: construct_UI_def merge_settings_def ex_kwargs_def dict_ui_default_def
        q_dict_truthy_def ex_world_def map_add_def setting_get_def bind_err_def Let_def)
  from construct_UI_not_fractional [OF f off c] i f off c show ?thesis by simp
qed

section \<open>Properties of the quantizer\<close>

lemma apply_round_of_int: "apply_round m (real_of_int k) = k"
proof (cases m)
  case Round
  have "\<lfloor>real_of_int k + 1 / 2\<rfloor> = k" by linarith
  moreover have "\<lceil>real_of_int k - 1 / 2\<rceil> = k" by linarith
  ultimately show ?thesis using Round by simp
next
  case Fix
  then show ?thesis by (simp add: trunc_def)
next
  case Floor
  then show ?thesis by simp
qed

lemma apply_overflow_range:
  assumes "0 < w"
  shows "- (2 ^ (w - 1)) \<le> apply_overflow m w k \<and> apply_overflow m w k \<le> 2 ^ (w - 1) - 1"
proof -
  have two: "(2::int) ^ w = 2 * 2 ^ (w - 1)"
    using assms by (cases w) simp_all
  have pos: "(0::int) < 2 ^ w" by simp
  show ?thesis
  proof (cases m)
    case Wrap
    have "0 \<le> (k + 2 ^ (w - 1)) mod 2 ^ w" "(k + 2 ^ (w - 1)) mod 2 ^ w < 2 ^ w"
      using pos by simp_all
    with two Wrap show ?thesis by simp
  next
    case Saturate
    have "(0::int) < 2 ^ (w - 1)" by simp
    with Saturate show ?thesis by simp
  qed
qed

lemma apply_overflow_id:
  assumes "0 < w" and "- (2 ^ (w - 1)) \<le> k" and "k \<le> 2 ^ (w - 1) - 1"
  shows "apply_overflow m w k = k"
proof (cases m)
  case Wrap
  have two: "(2::int) ^ w = 2 * 2 ^ (w - 1)"
    using assms(1) by (cases w) simp_all
  have "(k + 2 ^ (w - 1)) mod 2 ^ w = k + 2 ^ (w - 1)"
    using assms(2,3) two by (intro mod_pos_pos_trivial) simp_all
  with Wrap show ?thesis by simp
next
  case Saturate
  with assms(2,3) show ?thesis by simp
qed

lemma quantize_scaled: "quantize x c * 2 ^ fmt_WF (format c) = real_of_int (quantize_int x c)"
  by (simp add: quantize_def)

lemma quantize_int_range:
  "- (2 ^ (fmt_W (format c) - 1)) \<le> quantize_int x c \<and>
   quantize_int x c \<le> 2 ^ (fmt_W (format c) - 1) - 1"
  unfolding quantize_int_def by (rule apply_overflow_range) (simp add: fmt_W_def)

text \<open>
  Claim C9. Quantizing a quantized value again under the same config changes nothing.
\<close>

theorem quantize_idempotent: "quantize (quantize x c) c = quantize x c"
proof -
  have "quantize_int (quantize x c) c =
          apply_overflow (overflow_mode c) (fmt_W (format c)) (quantize_int x c)"
    by (simp add: quantize_int_def [of "quantize x c"] quantize_scaled apply_round_of_int)
  also have "\<dots> = quantize_int x c"
    using quantize_int_range [of c x] by (intro apply_overflow_id) (simp_all add: fmt_W_def)
  finally show ?thesis by (simp add: quantize_def)
qed


section \<open>Properties of the coefficient quantization\<close>










text \<open>
  Claim C4 does not hold for the code. For \<open>coeffs = None\<close> the method logs
  \<open>Coeffs empty!\<close> and goes on: the result is whatever the quantizer makes of \<open>None\<close>.
  For an empty list nothing is logged and the quantizer is called on the empty list.
\<close>

theorem quant_coeffs_None_not_aborted:
  "quant_coeffs FX q None False wld =
     (case Fixed FX q of
        Inl e \<Rightarrow> (Inl e, wld)
      | Inr Q \<Rightarrow>
          (bind_err (fixp FX (Q\<lparr>Q_frmt := ''dec''\<rparr>) None) py_list,
           log_entry_add (LogError ''Coeffs empty!'') wld)) \<and>
   quant_coeffs FX q (Some []) False wld =
     (case Fixed FX q of
        Inl e \<Rightarrow> (Inl e, wld)
      | Inr Q \<Rightarrow> (bind_err (fixp FX (Q\<lparr>Q_frmt := ''dec''\<rparr>) (Some [])) py_list, wld))"
  by (simp add: quant_coeffs_def Let_def split: sum.splits)

end
